theory Spec2Isabelle
  imports Complex_Main
begin

section \<open>JavaScript numbers\<close>

text \<open>
  A JavaScript number is an IEEE 754 binary64 value. \<open>Finite neg m e\<close> stands for the
  number \<open>m * 2 ^ e\<close>, negated when \<open>neg\<close> holds, with \<open>m\<close> positive and odd; the two
  zeros and the two infinities carry their sign. An operation computes the exact result on
  the integers and rounds it once, to the nearest value of 53 significant bits, ties to
  even, with gradual underflow below \<open>2 ^ -1022\<close> and overflow to infinity from
  \<open>2 ^ 1024\<close>.
\<close>

datatype js_number = NaN | Infinity bool | Zero bool | Finite bool int int

text \<open>The number of binary digits of a positive integer.\<close>

function bitlength :: "int \<Rightarrow> int" where
  "bitlength n = (if n \<le> 0 then 0 else 1 + bitlength (n div 2))"
  by pat_completeness auto
termination
  by (relation "measure nat") auto

declare bitlength.simps [simp del]

text \<open>Trailing zero bits of the significand move to the exponent.\<close>

function strip :: "int \<Rightarrow> int \<Rightarrow> int \<times> int" where
  "strip m e = (if m \<le> 0 \<or> odd m then (m, e) else strip (m div 2) (e + 1))"
  by pat_completeness auto
termination
  by (relation "measure (\<lambda>(m, e). nat m)") auto

declare strip.simps [simp del]

text \<open>
  \<open>roundTiesToEven n k\<close> is \<open>n / 2 ^ k\<close> rounded to the nearest integer, a tie going to
  the even neighbour.
\<close>

definition round_pick :: "int \<Rightarrow> int \<Rightarrow> int \<Rightarrow> int" where
  "round_pick q r p = (if p < 2 * r \<or> (2 * r = p \<and> odd q) then q + 1 else q)"

definition roundTiesToEven :: "int \<Rightarrow> int \<Rightarrow> int" where
  "roundTiesToEven n k = round_pick (n div 2 ^ nat k) (n mod 2 ^ nat k) (2 ^ nat k)"

text \<open>
  \<open>round_to_double neg n e\<close> is the double nearest to \<open>n * 2 ^ e\<close> (\<open>n\<close> not negative):
  the last kept bit has the exponent \<open>t\<close>, which is 52 below the leading bit and not below
  -1074.
\<close>

definition finite_of :: "bool \<Rightarrow> int \<times> int \<Rightarrow> js_number" where
  "finite_of neg me = Finite neg (fst me) (snd me)"

definition pack :: "bool \<Rightarrow> int \<Rightarrow> int \<Rightarrow> js_number" where
  "pack neg m e =
     (if m = 0 then Zero neg
      else if 1024 < e + bitlength m then Infinity neg
      else finite_of neg (strip m e))"

definition round_at :: "bool \<Rightarrow> int \<Rightarrow> int \<Rightarrow> int \<Rightarrow> js_number" where
  "round_at neg n e t =
     (if t \<le> e then pack neg n e else pack neg (roundTiesToEven n (t - e)) t)"

definition round_to_double :: "bool \<Rightarrow> int \<Rightarrow> int \<Rightarrow> js_number" where
  "round_to_double neg n e = round_at neg n e (max (e + bitlength n - 53) (- 1074))"

text \<open>Addition, negation and subtraction.\<close>

definition signed :: "bool \<Rightarrow> int \<Rightarrow> int" where
  "signed neg m = (if neg then - m else m)"

definition round_signed :: "int \<Rightarrow> int \<Rightarrow> js_number" where
  "round_signed v e = (if v = 0 then Zero False else round_to_double (v < 0) \<bar>v\<bar> e)"

definition add_finite :: "bool \<Rightarrow> int \<Rightarrow> int \<Rightarrow> bool \<Rightarrow> int \<Rightarrow> int \<Rightarrow> js_number" where
  "add_finite s1 m1 e1 s2 m2 e2 =
     round_signed (signed s1 m1 * 2 ^ nat (e1 - min e1 e2) + signed s2 m2 * 2 ^ nat (e2 - min e1 e2))
       (min e1 e2)"

fun num_add :: "js_number \<Rightarrow> js_number \<Rightarrow> js_number" where
  "num_add NaN y = NaN"
| "num_add x NaN = NaN"
| "num_add (Infinity s1) (Infinity s2) = (if s1 = s2 then Infinity s1 else NaN)"
| "num_add (Infinity s) y = Infinity s"
| "num_add x (Infinity s) = Infinity s"
| "num_add (Zero s1) (Zero s2) = Zero (s1 \<and> s2)"
| "num_add (Zero s) y = y"
| "num_add x (Zero s) = x"
| "num_add (Finite s1 m1 e1) (Finite s2 m2 e2) = add_finite s1 m1 e1 s2 m2 e2"

fun num_neg :: "js_number \<Rightarrow> js_number" where
  "num_neg NaN = NaN"
| "num_neg (Infinity s) = Infinity (\<not> s)"
| "num_neg (Zero s) = Zero (\<not> s)"
| "num_neg (Finite s m e) = Finite (\<not> s) m e"

definition num_sub :: "js_number \<Rightarrow> js_number \<Rightarrow> js_number" where
  "num_sub x y = num_add x (num_neg y)"


text \<open>
  Division: the quotient of the two significands is taken with at least 56 bits, and one
  more bit records whether the division left a remainder, so that the single rounding
  sees on which side of a tie the exact quotient lies.
\<close>

definition sticky :: "int \<Rightarrow> int \<Rightarrow> int" where
  "sticky q r = 2 * q + (if r = 0 then 0 else 1)"

definition div_shifted :: "bool \<Rightarrow> int \<Rightarrow> int \<Rightarrow> int \<Rightarrow> int \<Rightarrow> js_number" where
  "div_shifted neg a b e s =
     round_to_double neg (sticky ((a * 2 ^ nat s) div b) ((a * 2 ^ nat s) mod b)) (e - s - 1)"

definition div_round :: "bool \<Rightarrow> int \<Rightarrow> int \<Rightarrow> int \<Rightarrow> js_number" where
  "div_round neg a b e = div_shifted neg a b e (bitlength b + 55)"

fun num_div :: "js_number \<Rightarrow> js_number \<Rightarrow> js_number" where
  "num_div NaN y = NaN"
| "num_div x NaN = NaN"
| "num_div (Infinity s1) (Infinity s2) = NaN"
| "num_div (Infinity s1) (Zero s2) = Infinity (s1 \<noteq> s2)"
| "num_div (Infinity s1) (Finite s2 m e) = Infinity (s1 \<noteq> s2)"
| "num_div (Zero s1) (Zero s2) = NaN"
| "num_div (Zero s1) (Infinity s2) = Zero (s1 \<noteq> s2)"
| "num_div (Zero s1) (Finite s2 m e) = Zero (s1 \<noteq> s2)"
| "num_div (Finite s1 m e) (Zero s2) = Infinity (s1 \<noteq> s2)"
| "num_div (Finite s1 m e) (Infinity s2) = Zero (s1 \<noteq> s2)"
| "num_div (Finite s1 m1 e1) (Finite s2 m2 e2) = div_round (s1 \<noteq> s2) m1 m2 (e1 - e2)"

text \<open>
  A decimal literal of the source, \<open>0.45\<close> say, denotes the double nearest to the
  fraction 45/100 (\<open>num_lit 45 100\<close>); an integer such as an array length converts to the
  nearest double (\<open>num_of_nat\<close>).
\<close>

definition num_lit :: "nat \<Rightarrow> nat \<Rightarrow> js_number" where
  "num_lit p q = (if p = 0 then Zero False else div_round False (int p) (int q) 0)"

definition num_of_nat :: "nat \<Rightarrow> js_number" where
  "num_of_nat k = round_to_double False (int k) 0"

text \<open>The comparison \<open><\<close>: false when an operand is NaN; the two zeros are equal.\<close>

definition lt_finite :: "bool \<Rightarrow> int \<Rightarrow> int \<Rightarrow> bool \<Rightarrow> int \<Rightarrow> int \<Rightarrow> bool" where
  "lt_finite s1 m1 e1 s2 m2 e2 \<longleftrightarrow>
     signed s1 m1 * 2 ^ nat (e1 - min e1 e2) < signed s2 m2 * 2 ^ nat (e2 - min e1 e2)"

fun num_lt :: "js_number \<Rightarrow> js_number \<Rightarrow> bool" where
  "num_lt NaN y = False"
| "num_lt x NaN = False"
| "num_lt (Infinity s1) (Infinity s2) = (s1 \<and> \<not> s2)"
| "num_lt (Infinity s) y = s"
| "num_lt x (Infinity s) = (\<not> s)"
| "num_lt (Zero s1) (Zero s2) = False"
| "num_lt (Zero s1) (Finite s m e) = (\<not> s)"
| "num_lt (Finite s m e) (Zero s2) = s"
| "num_lt (Finite s1 m1 e1) (Finite s2 m2 e2) = lt_finite s1 m1 e1 s2 m2 e2"

text \<open>
  \<open>Math.max\<close> and \<open>Math.min\<close> as ECMAScript defines them: the running value starts at
  \<open>-Infinity\<close> (\<open>+Infinity\<close>), a NaN argument makes the result NaN, and \<open>+0\<close> counts as
  larger than \<open>-0\<close>.
\<close>

fun max_loop :: "js_number \<Rightarrow> js_number list \<Rightarrow> js_number" where
  "max_loop highest [] = highest"
| "max_loop highest (number # rest) =
     (if number = NaN then NaN
      else if number = Zero False \<and> highest = Zero True then max_loop (Zero False) rest
      else if num_lt highest number then max_loop number rest
      else max_loop highest rest)"

definition Math_max :: "js_number list \<Rightarrow> js_number" where
  "Math_max args = max_loop (Infinity True) args"

fun min_loop :: "js_number \<Rightarrow> js_number list \<Rightarrow> js_number" where
  "min_loop lowest [] = lowest"
| "min_loop lowest (number # rest) =
     (if number = NaN then NaN
      else if number = Zero True \<and> lowest = Zero False then min_loop (Zero True) rest
      else if num_lt number lowest then min_loop number rest
      else min_loop lowest rest)"

definition Math_min :: "js_number list \<Rightarrow> js_number" where
  "Math_min args = min_loop (Infinity False) args"


text \<open>The real number a finite value stands for.\<close>

fun value_of :: "js_number \<Rightarrow> real option" where
  "value_of NaN = None"
| "value_of (Infinity s) = None"
| "value_of (Zero s) = Some 0"
| "value_of (Finite s m e) =
     Some (if 0 \<le> e then of_int (signed s m) * 2 ^ nat e else of_int (signed s m) / 2 ^ nat (- e))"

section \<open>The attention hook (src/frontend/src/hooks/useAttention.js)\<close>

text \<open>
  The records of the hook are parametrised by the type of numbers \<open>'n\<close>. The two functions
  that compute with numbers are given twice: over \<open>js_number\<close>, with the arithmetic of the
  language (\<open>computeEngagement_ieee\<close>, \<open>stopTrackingItem_ieee\<close>), and over the reals, with
  the same operations carried out exactly (\<open>computeEngagement\<close>, \<open>stopTrackingItem\<close>). The
  review session below is built on the second pair: what is proved of it concerns which
  results are recorded and flagged, never the value of an average of several readings.
  Times (\<open>Date.now()\<close>, in milliseconds) are integers and are passed to every operation
  that reads the clock.
\<close>

subsection \<open>Input of the estimator: the result of the landmark extractor\<close>

text \<open>
  A landmark is a point of the face mesh; the estimator reads only its \<open>x\<close> and \<open>y\<close>
  coordinates (fields \<open>lm_x\<close>, \<open>lm_y\<close>). A blendshape category carries a name and a score;
  \<open>shape?.score ?? 0\<close> allows the score to be missing.
\<close>

record 'n landmark =
  lm_x :: 'n
  lm_y :: 'n

record 'n category =
  categoryName :: string
  score :: "'n option"

record 'n classifications =
  categories :: "'n category list option"

record 'n face_result =
  faceLandmarks :: "'n landmark list list option"
  faceBlendshapes :: "'n classifications list option"

record 'n metrics =
  engagement :: 'n
  focus :: 'n
  faceDetected :: bool

datatype js_error = TypeError

text \<open>
  \<open>getBlendshapeValue(blendshapes, name)\<close>: 0 when the blendshapes are missing, when the
  first entry is missing or has no categories, when no category has the name, or when the
  category has no score.
\<close>

definition getBlendshapeValue :: "real classifications list option \<Rightarrow> string \<Rightarrow> real" where
  "getBlendshapeValue blendshapes name =
     (case blendshapes of
        None \<Rightarrow> 0
      | Some [] \<Rightarrow> 0
      | Some (b # _) \<Rightarrow>
          (case categories b of
             None \<Rightarrow> 0
           | Some cs \<Rightarrow>
               (case find (\<lambda>c. categoryName c = name) cs of
                  None \<Rightarrow> 0
                | Some shape \<Rightarrow> (case score shape of None \<Rightarrow> 0 | Some v \<Rightarrow> v))))"

text \<open>
  \<open>computeEngagement(result)\<close>. The guard returns the no-face metrics when
  \<open>faceLandmarks\<close> is missing or empty. Otherwise the landmarks 1 (nose tip), 152 (chin) and
  10 (forehead) of the first face are read; reading a coordinate of a landmark that is not
  in the array throws a \<open>TypeError\<close> in JavaScript, which is the \<open>Inl\<close> branch here.
\<close>

definition computeEngagement :: "real face_result \<Rightarrow> js_error + real metrics" where
  "computeEngagement result =
     (case faceLandmarks result of
        None \<Rightarrow> Inr \<lparr>engagement = 0, focus = 0, faceDetected = False\<rparr>
      | Some [] \<Rightarrow> Inr \<lparr>engagement = 0, focus = 0, faceDetected = False\<rparr>
      | Some (landmarks # _) \<Rightarrow>
          (let blendshapes = faceBlendshapes result;
               blinkL = getBlendshapeValue blendshapes ''eyeBlinkLeft'';
               blinkR = getBlendshapeValue blendshapes ''eyeBlinkRight'';
               eyeOpenness = 1 - (blinkL + blinkR) / 2;
               lookDownL = getBlendshapeValue blendshapes ''eyeLookDownLeft'';
               lookDownR = getBlendshapeValue blendshapes ''eyeLookDownRight'';
               lookOutL = getBlendshapeValue blendshapes ''eyeLookOutLeft'';
               lookOutR = getBlendshapeValue blendshapes ''eyeLookOutRight'';
               lookAway = max (max (max lookDownL lookDownR) lookOutL) lookOutR;
               gazeScore = max 0 (1 - lookAway * 1.5)
           in if length landmarks \<le> 152 then Inl TypeError
              else
                (let noseTip = landmarks ! 1;
                     chin = landmarks ! 152;
                     forehead = landmarks ! 10;
                     faceCenterX = lm_x noseTip;
                     xDeviation = \<bar>faceCenterX - 0.5\<bar>;
                     headFacingScore = max 0 (1 - xDeviation * 3);
                     faceHeight = \<bar>lm_y forehead - lm_y chin\<bar>;
                     headTiltScore = min 1 (faceHeight / 0.25);
                     engagementV = max 0 (min 1
                       (eyeOpenness * 0.45 + headFacingScore * 0.35 + headTiltScore * 0.2));
                     focusV = max 0 (min 1
                       (gazeScore * 0.5 + eyeOpenness * 0.3 + headFacingScore * 0.2))
                 in Inr \<lparr>engagement = engagementV, focus = focusV, faceDetected = True\<rparr>)))"

subsection \<open>The formulas of the specification, exactly\<close>



definition spec_gazeScore :: "real \<Rightarrow> real \<Rightarrow> real \<Rightarrow> real \<Rightarrow> real" where
  "spec_gazeScore downLeft downRight outLeft outRight =
     max 0 (1 - Max {downLeft, downRight, outLeft, outRight} * 1.5)"



subsection \<open>The estimator in the arithmetic of the language\<close>



subsection \<open>The formulas of the specification in the arithmetic of the language\<close>










subsection \<open>The item tracker\<close>

text \<open>
  The live snapshot extends the metrics by \<open>stress\<close> and \<open>heartRate\<close>. A tracking record
  holds the readings (copies of the live snapshot) and the start time. The hook keeps the
  records in \<open>itemMetricsRef\<close>, an object indexed by item index, and the snapshot in
  \<open>liveMetrics\<close>.
\<close>

record 'n live_metrics = "'n metrics" +
  stress :: 'n
  heartRate :: 'n

record 'n item_metrics =
  readings :: "'n live_metrics list"
  startTime :: int

record 'n item_result =
  itemIndex :: nat
  avgEngagement :: 'n
  avgFocus :: 'n
  timeSpentMs :: int

record 'n attention_hook =
  itemMetricsRef :: "nat \<rightharpoonup> 'n item_metrics"
  liveMetrics :: "'n live_metrics"

definition startTrackingItem ::
  "nat \<Rightarrow> int \<Rightarrow> real attention_hook \<Rightarrow> real attention_hook" where
  "startTrackingItem idx now a =
     a\<lparr>itemMetricsRef := (itemMetricsRef a)(idx \<mapsto> \<lparr>readings = [], startTime = now\<rparr>)\<rparr>"

text \<open>
  \<open>stopTrackingItem(itemIndex)\<close> reads the record and the live snapshot and writes nothing:
  the hook is returned as it was, beside the result (\<open>None\<close> for JavaScript's \<open>null\<close>).
  \<open>readings.reduce((s, r) => s + r.engagement, 0)\<close> is the left fold.
\<close>

definition stopTrackingItem ::
  "nat \<Rightarrow> int \<Rightarrow> real attention_hook \<Rightarrow> real item_result option \<times> real attention_hook" where
  "stopTrackingItem idx now a =
     (case itemMetricsRef a idx of
        None \<Rightarrow> (None, a)
      | Some d \<Rightarrow>
          (let elapsed = now - startTime d;
               rs = readings d
           in if length rs = 0
              then (Some \<lparr>itemIndex = idx,
                          avgEngagement = engagement (liveMetrics a),
                          avgFocus = focus (liveMetrics a),
                          timeSpentMs = elapsed\<rparr>, a)
              else (Some \<lparr>itemIndex = idx,
                          avgEngagement = foldl (\<lambda>s r. s + engagement r) 0 rs / real (length rs),
                          avgFocus = foldl (\<lambda>s r. s + focus r) 0 rs / real (length rs),
                          timeSpentMs = elapsed\<rparr>, a)))"

definition recordReading :: "nat \<Rightarrow> real attention_hook \<Rightarrow> real attention_hook" where
  "recordReading idx a =
     (case itemMetricsRef a idx of
        None \<Rightarrow> a
      | Some d \<Rightarrow>
          a\<lparr>itemMetricsRef := (itemMetricsRef a)(idx \<mapsto> d\<lparr>readings := readings d @ [liveMetrics a]\<rparr>)\<rparr>)"

text \<open>The arithmetic mean, as the specification words it, over the reals.\<close>

definition mean :: "real list \<Rightarrow> real" where
  "mean xs = sum_list xs / real (length xs)"

text \<open>
  \<open>stopTrackingItem\<close> over \<open>js_number\<close>: the fold adds with rounding, starting from the
  literal 0, and the sum is divided by the length of the array.
\<close>

definition stopTrackingItem_ieee ::
  "nat \<Rightarrow> int \<Rightarrow> js_number attention_hook
     \<Rightarrow> js_number item_result option \<times> js_number attention_hook" where
  "stopTrackingItem_ieee idx now a =
     (case itemMetricsRef a idx of
        None \<Rightarrow> (None, a)
      | Some d \<Rightarrow>
          (let elapsed = now - startTime d;
               rs = readings d
           in if length rs = 0
              then (Some \<lparr>itemIndex = idx,
                          avgEngagement = engagement (liveMetrics a),
                          avgFocus = focus (liveMetrics a),
                          timeSpentMs = elapsed\<rparr>, a)
              else (Some \<lparr>itemIndex = idx,
                          avgEngagement =
                            num_div (foldl (\<lambda>s r. num_add s (engagement r)) (num_of_nat 0) rs)
                                    (num_of_nat (length rs)),
                          avgFocus =
                            num_div (foldl (\<lambda>s r. num_add s (focus r)) (num_of_nat 0) rs)
                                    (num_of_nat (length rs)),
                          timeSpentMs = elapsed\<rparr>, a)))"

text \<open>
  The mean in the arithmetic of the language: the partial sums \<open>s\<^sub>0 = 0\<close>,
  \<open>s\<^sub>i = s\<^sub>i\<^sub>-\<^sub>1 + x\<^sub>i\<close>, each addition rounded, and the last of them divided by the
  number of values, rounded once more.
\<close>

fun sum_upto :: "js_number list \<Rightarrow> nat \<Rightarrow> js_number" where
  "sum_upto xs 0 = Zero False"
| "sum_upto xs (Suc i) = num_add (sum_upto xs i) (xs ! i)"

definition ieee_mean :: "js_number list \<Rightarrow> js_number" where
  "ieee_mean xs = num_div (sum_upto xs (length xs)) (num_of_nat (length xs))"

section \<open>The review session (the ReviewBriefing component, src/unnamed/part_002)\<close>

text \<open>
  The component keeps its state in React state variables and refs; a handler runs on a user
  action and the effects of the component run after the render that follows. The model
  keeps the state in one record, translates each handler into a function on it, and applies
  the effects after each handler (\<open>renderEffects\<close>). The number of items of the briefing,
  \<open>items.length\<close>, is the parameter \<open>n\<close>. The camera, the network request that logs
  the results and the rendering itself are not part of the model.
\<close>

datatype phase = Setup | Reviewing | Results

record review_state =
  currentIndex :: nat
  phase :: phase
  itemResults :: "real item_result list"
  missedItems :: "real item_result list"
  reviewQueue :: "nat list option"
  isReReview :: bool
  itemResultsRef :: "real item_result list"
  attention :: "real attention_hook"

text \<open>
  \<open>activeQueue = reviewQueue || items.map((_, i) => i)\<close> (an empty array is truthy), and
  \<open>activeItemIndex = activeQueue[currentIndex]\<close>, \<open>undefined\<close> out of range.
\<close>

definition activeQueue :: "nat \<Rightarrow> review_state \<Rightarrow> nat list" where
  "activeQueue n s = (case reviewQueue s of Some q \<Rightarrow> q | None \<Rightarrow> [0..<n])"

definition activeItemIndex :: "nat \<Rightarrow> review_state \<Rightarrow> nat option" where
  "activeItemIndex n s =
     (let q = activeQueue n s
      in if currentIndex s < length q then Some (q ! currentIndex s) else None)"

text \<open>The filter of \<open>finishReview\<close>: \<open>r.avgEngagement < 0.4 || r.avgFocus < 0.35\<close>.\<close>

definition belowThreshold :: "real item_result \<Rightarrow> bool" where
  "belowThreshold r = (avgEngagement r < 0.4 \<or> avgFocus r < 0.35)"

text \<open>\<open>Array.prototype.findIndex\<close>, with \<open>None\<close> for -1.\<close>

fun findIndex :: "('a \<Rightarrow> bool) \<Rightarrow> 'a list \<Rightarrow> nat option" where
  "findIndex P [] = None"
| "findIndex P (x # xs) = (if P x then Some 0 else map_option Suc (findIndex P xs))"

text \<open>
  The body and the loop of the state update of the re-review branch of \<open>finishReview\<close>:
  each final result replaces the first entry of its item index, or is pushed when there is
  none.
\<close>

definition mergeResult ::
  "real item_result list \<Rightarrow> real item_result \<Rightarrow> real item_result list" where
  "mergeResult updated result =
     (case findIndex (\<lambda>r. itemIndex r = itemIndex result) updated of
        Some existingIdx \<Rightarrow> updated[existingIdx := result]
      | None \<Rightarrow> updated @ [result])"

definition mergeResults ::
  "real item_result list \<Rightarrow> real item_result list \<Rightarrow> real item_result list" where
  "mergeResults prev finalResults = foldl mergeResult prev finalResults"

definition finishReview :: "real item_result list \<Rightarrow> review_state \<Rightarrow> review_state" where
  "finishReview finalResults s =
     (if isReReview s
      then s\<lparr>itemResults := mergeResults (itemResults s) finalResults,
              missedItems := filter belowThreshold finalResults,
              reviewQueue := None, isReReview := False, phase := Results\<rparr>
      else s\<lparr>itemResults := finalResults,
              missedItems := filter belowThreshold finalResults,
              reviewQueue := None, isReReview := False, phase := Results\<rparr>)"

text \<open>
  \<open>attention.stopTrackingItem(activeItemIndex)\<close>; with \<open>activeItemIndex\<close> undefined no
  record is found and the call returns \<open>null\<close>.
\<close>

definition stopActive ::
  "nat \<Rightarrow> int \<Rightarrow> review_state \<Rightarrow> real item_result option \<times> real attention_hook" where
  "stopActive n now s =
     (case activeItemIndex n s of
        None \<Rightarrow> (None, attention s)
      | Some idx \<Rightarrow> stopTrackingItem idx now (attention s))"

text \<open>
  \<open>advanceItem\<close>: the result is appended to \<open>itemResults\<close>; on the last position the final
  results are \<open>itemResultsRef.current\<close> followed by the result, and \<open>finishReview\<close> runs
  on the state whose \<open>itemResults\<close> already holds the appended result (the functional
  updates of React are applied in order). \<open>currentIndex < activeQueue.length - 1\<close> is
  written without the subtraction, which is truncated on \<open>nat\<close>.
\<close>

definition advanceItem :: "nat \<Rightarrow> int \<Rightarrow> review_state \<Rightarrow> review_state" where
  "advanceItem n now s =
     (let (result, att) = stopActive n now s;
          s1 = (case result of
                  Some r \<Rightarrow> s\<lparr>itemResults := itemResults s @ [r], attention := att\<rparr>
                | None \<Rightarrow> s\<lparr>attention := att\<rparr>)
      in if currentIndex s + 1 < length (activeQueue n s)
         then s1\<lparr>currentIndex := currentIndex s + 1\<rparr>
         else finishReview
                (case result of
                   Some r \<Rightarrow> itemResultsRef s @ [r]
                 | None \<Rightarrow> itemResultsRef s) s1)"

text \<open>\<open>goBack\<close>: the value returned by \<open>stopTrackingItem\<close> is not used.\<close>

definition goBack :: "nat \<Rightarrow> int \<Rightarrow> review_state \<Rightarrow> review_state" where
  "goBack n now s =
     (if 0 < currentIndex s
      then (let (result, att) = stopActive n now s
            in s\<lparr>attention := att, currentIndex := currentIndex s - 1\<rparr>)
      else s)"

definition startReview :: "review_state \<Rightarrow> review_state" where
  "startReview s = s\<lparr>phase := Reviewing\<rparr>"

definition startReReview :: "review_state \<Rightarrow> review_state" where
  "startReReview s =
     s\<lparr>currentIndex := 0, reviewQueue := Some (map itemIndex (missedItems s)),
       isReReview := True, phase := Reviewing\<rparr>"

definition resetReview :: "review_state \<Rightarrow> review_state" where
  "resetReview s =
     s\<lparr>phase := Setup, currentIndex := 0, itemResults := [], missedItems := [],
       reviewQueue := None, isReReview := False\<rparr>"

text \<open>
  The effects that run after a render: \<open>itemResultsRef.current = itemResults\<close>, and, while
  reviewing with an active item, \<open>attention.startTrackingItem(activeItemIndex)\<close>. The
  dependencies of the second effect are \<open>[activeItemIndex, phase, attention]\<close>, and
  \<open>attention\<close> is the object that \<open>useAttention()\<close> builds anew at every render, so the
  effect runs after every render of the component.
\<close>

text \<open>
  The session-initialisation effect also calls \<open>startTrackingItem(activeQueue[0])\<close> once
  the signal source has been started; at the start of a pass the position is 0, so this
  is the call that \<open>renderEffects\<close> makes for the active item.
\<close>

definition renderEffects :: "nat \<Rightarrow> int \<Rightarrow> review_state \<Rightarrow> review_state" where
  "renderEffects n now s =
     s\<lparr>itemResultsRef := itemResults s,
       attention :=
         (if phase s = Reviewing
          then (case activeItemIndex n s of
                  Some idx \<Rightarrow> startTrackingItem idx now (attention s)
                | None \<Rightarrow> attention s)
          else attention s)\<rparr>"

text \<open>
  The two producers of the live snapshot. The frame loop runs the estimator and keeps
  \<open>stress\<close> and \<open>heartRate\<close>; an exception of the estimator is caught and the snapshot is
  left as it was. The demo loop draws a whole snapshot at random: the drawn snapshot is the
  argument of \<open>setLive\<close>.
\<close>

definition setLive :: "real live_metrics \<Rightarrow> review_state \<Rightarrow> review_state" where
  "setLive m s = s\<lparr>attention := (attention s)\<lparr>liveMetrics := m\<rparr>\<rparr>"

definition detectFrame :: "real face_result \<Rightarrow> review_state \<Rightarrow> review_state" where
  "detectFrame result s =
     (case computeEngagement result of
        Inl e \<Rightarrow> s
      | Inr m \<Rightarrow>
          setLive \<lparr>engagement = engagement m, focus = focus m, faceDetected = faceDetected m,
                   stress = stress (liveMetrics (attention s)),
                   heartRate = heartRate (liveMetrics (attention s))\<rparr> s)"

text \<open>The 500 ms interval: \<open>attention.recordReading(activeItemIndex)\<close>.\<close>

definition sampleTick :: "nat \<Rightarrow> review_state \<Rightarrow> review_state" where
  "sampleTick n s =
     (case activeItemIndex n s of
        None \<Rightarrow> s
      | Some idx \<Rightarrow> s\<lparr>attention := recordReading idx (attention s)\<rparr>)"

text \<open>
  The reviewing view shows the item \<open>items[activeItemIndex]\<close> with its two buttons only
  when the item exists; otherwise it shows "No items to review" and a reset button.
\<close>

definition itemShown :: "nat \<Rightarrow> review_state \<Rightarrow> bool" where
  "itemShown n s = (case activeItemIndex n s of None \<Rightarrow> False | Some idx \<Rightarrow> idx < n)"

text \<open>
  The events of a session. An integer is the value of \<open>Date.now()\<close> when the event and the
  effects after it run. \<open>step\<close> is \<open>None\<close> when the view of the current phase does not
  offer the action: the start button belongs to the setup view, the two navigation buttons
  to the reviewing view (the back button is disabled at position 0), the re-review button
  to the results view with a non-empty missed list. A sample only mutates a ref, so no
  render follows it; neither does a frame on which the estimator throws, since the
  exception is caught before the snapshot is set.
\<close>

datatype event =
  StartReview int
| AdvanceItem int
| GoBack int
| StartReReview int
| ResetReview int
| SampleTick
| DetectFrame "real face_result" int
| DemoTick "real live_metrics" int

fun step :: "nat \<Rightarrow> event \<Rightarrow> review_state \<Rightarrow> review_state option" where
  "step n (StartReview now) s =
     (if phase s = Setup then Some (renderEffects n now (startReview s)) else None)"
| "step n (AdvanceItem now) s =
     (if phase s = Reviewing \<and> itemShown n s
      then Some (renderEffects n now (advanceItem n now s)) else None)"
| "step n (GoBack now) s =
     (if phase s = Reviewing \<and> itemShown n s \<and> currentIndex s \<noteq> 0
      then Some (renderEffects n now (goBack n now s)) else None)"
| "step n (StartReReview now) s =
     (if phase s = Results \<and> missedItems s \<noteq> []
      then Some (renderEffects n now (startReReview s)) else None)"
| "step n (ResetReview now) s =
     (if phase s = Results \<or> (phase s = Reviewing \<and> \<not> itemShown n s)
      then Some (renderEffects n now (resetReview s)) else None)"
| "step n SampleTick s =
     (if phase s = Reviewing then Some (sampleTick n s) else None)"
| "step n (DetectFrame result now) s =
     (if phase s = Reviewing
      then (case computeEngagement result of
              Inl e \<Rightarrow> Some s
            | Inr m \<Rightarrow> Some (renderEffects n now (detectFrame result s)))
      else None)"
| "step n (DemoTick m now) s =
     (if phase s = Reviewing then Some (renderEffects n now (setLive m s)) else None)"

fun run :: "nat \<Rightarrow> event list \<Rightarrow> review_state \<Rightarrow> review_state option" where
  "run n [] s = Some s"
| "run n (e # es) s = (case step n e s of None \<Rightarrow> None | Some s' \<Rightarrow> run n es s')"

text \<open>The state of a freshly mounted component.\<close>

definition initialState :: review_state where
  "initialState =
     \<lparr>currentIndex = 0, phase = Setup, itemResults = [], missedItems = [],
      reviewQueue = None, isReReview = False, itemResultsRef = [],
      attention = \<lparr>itemMetricsRef = Map.empty,
                   liveMetrics = \<lparr>engagement = 0, focus = 0, faceDetected = False,
                                  stress = 0, heartRate = 0\<rparr>\<rparr>\<rparr>"

text \<open>
  The two lookups of the results view: \<open>itemResults.find(r => r.itemIndex === idx)\<close> is the
  result shown for an item, \<open>missedItems.some(m => m.itemIndex === idx)\<close> marks it as
  missed.
\<close>

definition resultFor :: "nat \<Rightarrow> real item_result list \<Rightarrow> real item_result option" where
  "resultFor idx rs = find (\<lambda>r. itemIndex r = idx) rs"

definition isMissed :: "nat \<Rightarrow> real item_result list \<Rightarrow> bool" where
  "isMissed idx ms = list_ex (\<lambda>m. itemIndex m = idx) ms"

text \<open>The tracking record of an item in a session state.\<close>

definition trackingOf :: "nat \<Rightarrow> review_state \<Rightarrow> real item_metrics option" where
  "trackingOf idx s = itemMetricsRef (attention s) idx"

text \<open>
  The events of a pass that only moves forward: advancing, sampling and updates of the
  live snapshot.
\<close>

fun isForward :: "event \<Rightarrow> bool" where
  "isForward (AdvanceItem now) = True"
| "isForward SampleTick = True"
| "isForward (DetectFrame result now) = True"
| "isForward (DemoTick m now) = True"
| "isForward e = False"

text \<open>
  The states of a first pass in which the user has only moved forward: the queue is the
  whole briefing, the results hold one entry for each item before the position, in order,
  and the item at the position is being tracked. \<open>passDone\<close> describes the end of such
  a pass.
\<close>

definition forwardPass :: "nat \<Rightarrow> review_state \<Rightarrow> bool" where
  "forwardPass n s \<longleftrightarrow>
     phase s = Reviewing \<and> reviewQueue s = None \<and> \<not> isReReview s
     \<and> itemResultsRef s = itemResults s
     \<and> map itemIndex (itemResults s) = [0..<currentIndex s]
     \<and> (if n = 0 then currentIndex s = 0
         else currentIndex s < n \<and> trackingOf (currentIndex s) s \<noteq> None)"

definition passDone :: "nat \<Rightarrow> review_state \<Rightarrow> bool" where
  "passDone n s \<longleftrightarrow>
     phase s = Results \<and> map itemIndex (itemResults s) = [0..<n]
     \<and> missedItems s = filter belowThreshold (itemResults s)"

section \<open>Concrete inputs\<close>

definition snapshot :: "real \<Rightarrow> real \<Rightarrow> real live_metrics" where
  "snapshot e f = \<lparr>engagement = e, focus = f, faceDetected = True, stress = 0, heartRate = 0\<rparr>"

definition no_face :: "real face_result" where
  "no_face = \<lparr>faceLandmarks = Some [], faceBlendshapes = None\<rparr>"

text \<open>
  A hook with two open records: item 0 with two readings, item 1 with none; item 2 has no
  record.
\<close>

definition example_hook :: "real attention_hook" where
  "example_hook =
     \<lparr>itemMetricsRef =
        [0 \<mapsto> \<lparr>readings = [snapshot 0.8 0.6, snapshot 0.4 0.2], startTime = 1000\<rparr>,
         1 \<mapsto> \<lparr>readings = [], startTime = 2000\<rparr>],
      liveMetrics = snapshot 0.5 0.3\<rparr>"




definition snapshot_ieee :: "js_number \<Rightarrow> js_number \<Rightarrow> js_number live_metrics" where
  "snapshot_ieee e f =
     \<lparr>engagement = e, focus = f, faceDetected = True, stress = Zero False, heartRate = Zero False\<rparr>"

definition example_hook_ieee :: "js_number attention_hook" where
  "example_hook_ieee =
     \<lparr>itemMetricsRef =
        [0 \<mapsto> \<lparr>readings = [snapshot_ieee (num_lit 8 10) (num_lit 6 10),
                              snapshot_ieee (num_lit 4 10) (num_lit 2 10)],
                  startTime = 1000\<rparr>,
         1 \<mapsto> \<lparr>readings = [], startTime = 2000\<rparr>],
      liveMetrics = snapshot_ieee (num_lit 5 10) (num_lit 3 10)\<rparr>"

definition three_readings :: "js_number live_metrics list" where
  "three_readings = replicate 3 (snapshot_ieee (num_lit 35 100) (num_lit 35 100))"

definition three_readings_hook :: "js_number attention_hook" where
  "three_readings_hook =
     \<lparr>itemMetricsRef = [0 \<mapsto> \<lparr>readings = three_readings, startTime = 1000\<rparr>],
      liveMetrics = snapshot_ieee (num_lit 35 100) (num_lit 35 100)\<rparr>"

text \<open>
  A pass over two items that has advanced from item 0, sampled twice, to item 1: the events,
  and the state they lead to (\<open>back_state_reached\<close> below).
\<close>

definition back_prefix :: "event list" where
  "back_prefix =
     [StartReview 0, DemoTick (snapshot 0.9 0.8) 100, SampleTick, SampleTick, AdvanceItem 1000,
      DemoTick (snapshot 0.7 0.6) 1500]"

definition back_state :: review_state where
  "back_state =
     \<lparr>currentIndex = 1, phase = Reviewing,
      itemResults = [\<lparr>itemIndex = 0, avgEngagement = 0.9, avgFocus = 0.8, timeSpentMs = 900\<rparr>],
      missedItems = [], reviewQueue = None, isReReview = False,
      itemResultsRef = [\<lparr>itemIndex = 0, avgEngagement = 0.9, avgFocus = 0.8, timeSpentMs = 900\<rparr>],
      attention =
        \<lparr>itemMetricsRef =
           [0 \<mapsto> \<lparr>readings = [snapshot 0.9 0.8, snapshot 0.9 0.8], startTime = 100\<rparr>,
            1 \<mapsto> \<lparr>readings = [], startTime = 1500\<rparr>],
         liveMetrics = snapshot 0.7 0.6\<rparr>\<rparr>"

text \<open>
  One item, reviewed with low attention (0.2, 0.2) and re-reviewed with high attention
  (0.9, 0.9).
\<close>

definition rereview_trace :: "event list" where
  "rereview_trace =
     [StartReview 0, DemoTick (snapshot 0.2 0.2) 100, SampleTick, AdvanceItem 1000,
      StartReReview 2000, DemoTick (snapshot 0.9 0.9) 2100, SampleTick, AdvanceItem 3000]"

text \<open>
  The scenario of the specification: three items whose averages are (0.8, 0.75),
  (0.2, 0.2) and (0.5, 0.3); then the re-review of the two missed items, both with (0.9, 0.9).
\<close>

definition scenario_pass :: "event list" where
  "scenario_pass =
     [StartReview 0,
      DemoTick (snapshot 0.8 0.75) 100, SampleTick, AdvanceItem 1000,
      DemoTick (snapshot 0.2 0.2) 1100, SampleTick, AdvanceItem 2000,
      DemoTick (snapshot 0.5 0.3) 2100, SampleTick, AdvanceItem 3000]"

definition scenario_rereview :: "event list" where
  "scenario_rereview =
     [StartReReview 4000,
      DemoTick (snapshot 0.9 0.9) 4100, SampleTick, AdvanceItem 5000,
      DemoTick (snapshot 0.9 0.9) 5100, SampleTick, AdvanceItem 6000]"

text \<open>
  Two passes over two items in which the user goes back from item 1 to item 0 once: without
  any metrics update, and with item 0 watched attentively on the first visit and
  inattentively on the second.
\<close>

definition revisit_trace :: "event list" where
  "revisit_trace =
     [StartReview 0, AdvanceItem 1000, GoBack 2000, AdvanceItem 3000, AdvanceItem 4000]"

definition second_visit_trace :: "event list" where
  "second_visit_trace =
     [StartReview 0, DemoTick (snapshot 0.9 0.9) 100, AdvanceItem 1000, GoBack 2000,
      DemoTick (snapshot 0.1 0.1) 2100, AdvanceItem 3000,
      DemoTick (snapshot 0.9 0.9) 3100, AdvanceItem 4000]"


section \<open>Evaluating the arithmetic\<close>

lemmas ieee_defs = round_pick_def roundTiesToEven_def finite_of_def pack_def round_at_def
  round_to_double_def signed_def round_signed_def add_finite_def num_sub_def sticky_def
  div_shifted_def div_round_def num_lit_def num_of_nat_def bitlength.simps strip.simps
  lt_finite_def Math_max_def Math_min_def

lemma num_of_nat_small:
  "num_of_nat 0 = Zero False"
  "num_of_nat 1 = Finite False 1 0"
  "num_of_nat (Suc 0) = Finite False 1 0"
  "num_of_nat 2 = Finite False 1 1"
  "num_of_nat 3 = Finite False 3 0"
  by (simp_all add: ieee_defs)

lemma literals:
  "num_lit 8 10 = Finite False 3602879701896397 (- 52)"
  "num_lit 6 10 = Finite False 5404319552844595 (- 53)"
  "num_lit 4 10 = Finite False 3602879701896397 (- 53)"
  "num_lit 2 10 = Finite False 3602879701896397 (- 54)"
  "num_lit 5 10 = Finite False 1 (- 1)"
  "num_lit 3 10 = Finite False 5404319552844595 (- 54)"
  "num_lit 35 100 = Finite False 3152519739159347 (- 53)"
  by (simp_all add: ieee_defs)

section \<open>Properties of the estimator\<close>












text \<open>
  C9. When the landmarks are missing or no face is in them, the estimator returns the
  metrics 0, 0, false; it returns a value (\<open>Inr\<close>), not an error.
\<close>

theorem computeEngagement_no_face:
  assumes "faceLandmarks result = None \<or> faceLandmarks result = Some []"
  shows "computeEngagement result = Inr \<lparr>engagement = 0, focus = 0, faceDetected = False\<rparr>"
  using assms by (auto simp add: computeEngagement_def)

theorem computeEngagement_no_face_witness:
  "(faceLandmarks no_face = None \<or> faceLandmarks no_face = Some [])
   \<and> computeEngagement no_face = Inr \<lparr>engagement = 0, focus = 0, faceDetected = False\<rparr>"
proof -
  have h: "faceLandmarks no_face = None \<or> faceLandmarks no_face = Some []"
    by (simp add: no_face_def)
  from computeEngagement_no_face [OF h] h show ?thesis by blast
qed

section \<open>Properties of the item tracker\<close>

lemma sum_upto_append:
  "i \<le> length xs \<Longrightarrow> sum_upto (xs @ ys) i = sum_upto xs i"
  by (induction i) (simp_all add: nth_append)

lemma foldl_sum_upto:
  "foldl (\<lambda>s r. num_add s (f r)) (Zero False) rs = sum_upto (map f rs) (length rs)"
proof (induction rs rule: rev_induct)
  case Nil
  show ?case by simp
next
  case (snoc r rs)
  have "sum_upto (map f rs @ [f r]) (length rs) = sum_upto (map f rs) (length rs)"
    by (rule sum_upto_append) simp
  with snoc show ?case by (simp add: nth_append)
qed

lemma stopTrackingItem_ieee_result:
  assumes "itemMetricsRef a idx = Some d"
  shows "stopTrackingItem_ieee idx now a =
           (Some \<lparr>itemIndex = idx,
                  avgEngagement = (if readings d = [] then engagement (liveMetrics a)
                                   else ieee_mean (map engagement (readings d))),
                  avgFocus = (if readings d = [] then focus (liveMetrics a)
                              else ieee_mean (map focus (readings d))),
                  timeSpentMs = now - startTime d\<rparr>, a)"
  using assms
  by (simp add: stopTrackingItem_ieee_def Let_def ieee_mean_def foldl_sum_upto num_of_nat_small)

text \<open>
  C6 (amended). For an open tracking record with \<open>k \<ge> 1\<close> readings \<open>r\<^sub>1 .. r\<^sub>k\<close>,
  \<open>stopTrackingItem\<close> returns as \<open>avgEngagement\<close> the mean computed in the arithmetic of the
  language: the partial sums \<open>s\<^sub>0 = 0\<close>, \<open>s\<^sub>i = s\<^sub>i\<^sub>-\<^sub>1 + r\<^sub>i.engagement\<close>, each rounded to the
  nearest double, and \<open>s\<^sub>k / k\<close> rounded once more; \<open>avgFocus\<close> likewise from the focus of
  the readings; \<open>timeSpentMs\<close> is \<open>now - startTime\<close>. With no reading the two averages are
  the engagement and focus of the live snapshot. The hook is left as it was.
\<close>

theorem stopTrackingItem_ieee_mean:
  assumes "itemMetricsRef a idx = Some d"
  shows "stopTrackingItem_ieee idx now a =
           (Some \<lparr>itemIndex = idx,
                  avgEngagement = (if readings d = [] then engagement (liveMetrics a)
                                   else ieee_mean (map engagement (readings d))),
                  avgFocus = (if readings d = [] then focus (liveMetrics a)
                              else ieee_mean (map focus (readings d))),
                  timeSpentMs = now - startTime d\<rparr>, a)"
  using assms by (rule stopTrackingItem_ieee_result)

lemma example_means:
  "ieee_mean [Finite False 3602879701896397 (- 52), Finite False 3602879701896397 (- 53)]
     = Finite False 1351079888211149 (- 51)"
  "ieee_mean [Finite False 5404319552844595 (- 53), Finite False 3602879701896397 (- 54)]
     = Finite False 3602879701896397 (- 53)"
  "ieee_mean (replicate 3 (Finite False 3152519739159347 (- 53)))
     = Finite False 6305039478318693 (- 54)"
  by (simp_all add: ieee_mean_def numeral_3_eq_3 numeral_2_eq_2 ieee_defs)

text \<open>
  On \<open>example_hook_ieee\<close>: item 0 holds the readings (0.8, 0.6) and (0.4, 0.2); its
  averages are the doubles printed as 0.6000000000000001 and 0.4. Item 1 holds no
  reading; its result is the live snapshot (0.5, 0.3).
\<close>

theorem stopTrackingItem_ieee_mean_witness:
  "itemMetricsRef example_hook_ieee 0
     = Some \<lparr>readings = [snapshot_ieee (num_lit 8 10) (num_lit 6 10),
                          snapshot_ieee (num_lit 4 10) (num_lit 2 10)], startTime = 1000\<rparr>
   \<and> stopTrackingItem_ieee 0 4000 example_hook_ieee
     = (Some \<lparr>itemIndex = 0, avgEngagement = Finite False 1351079888211149 (- 51),
              avgFocus = Finite False 3602879701896397 (- 53), timeSpentMs = 3000\<rparr>,
        example_hook_ieee)
   \<and> itemMetricsRef example_hook_ieee 1 = Some \<lparr>readings = [], startTime = 2000\<rparr>
   \<and> stopTrackingItem_ieee 1 4000 example_hook_ieee
     = (Some \<lparr>itemIndex = 1, avgEngagement = Finite False 1 (- 1),
              avgFocus = Finite False 5404319552844595 (- 54), timeSpentMs = 2000\<rparr>,
        example_hook_ieee)"
proof -
  have h0: "itemMetricsRef example_hook_ieee 0
     = Some \<lparr>readings = [snapshot_ieee (num_lit 8 10) (num_lit 6 10),
                          snapshot_ieee (num_lit 4 10) (num_lit 2 10)], startTime = 1000\<rparr>"
    by (simp add: example_hook_ieee_def)
  have h1: "itemMetricsRef example_hook_ieee 1 = Some \<lparr>readings = [], startTime = 2000\<rparr>"
    by (simp add: example_hook_ieee_def)
  have live: "liveMetrics example_hook_ieee = snapshot_ieee (num_lit 5 10) (num_lit 3 10)"
    by (simp add: example_hook_ieee_def)
  have r0: "stopTrackingItem_ieee 0 4000 example_hook_ieee
     = (Some \<lparr>itemIndex = 0, avgEngagement = Finite False 1351079888211149 (- 51),
              avgFocus = Finite False 3602879701896397 (- 53), timeSpentMs = 3000\<rparr>,
        example_hook_ieee)"
    using stopTrackingItem_ieee_mean [OF h0, of 4000]
    by (simp add: snapshot_ieee_def literals example_means)
  have r1: "stopTrackingItem_ieee 1 4000 example_hook_ieee
     = (Some \<lparr>itemIndex = 1, avgEngagement = Finite False 1 (- 1),
              avgFocus = Finite False 5404319552844595 (- 54), timeSpentMs = 2000\<rparr>,
        example_hook_ieee)"
    using stopTrackingItem_ieee_mean [OF h1, of 4000]
    by (simp add: live snapshot_ieee_def literals)
  from h0 r0 h1 r1 show ?thesis by blast
qed

text \<open>
  C6 as stated fails: for three readings whose engagement is the double 0.35, the exact
  arithmetic mean is that same double, and \<open>stopTrackingItem\<close> returns the double below
  it (printed as 0.3499999999999999).
\<close>

theorem stopTrackingItem_mean_not_exact:
  "map engagement three_readings = replicate 3 (Finite False 3152519739159347 (- 53))
   \<and> value_of (Finite False 3152519739159347 (- 53)) = Some (3152519739159347 / 2 ^ 53)
   \<and> mean (replicate 3 (3152519739159347 / 2 ^ 53)) = 3152519739159347 / 2 ^ 53
   \<and> stopTrackingItem_ieee 0 2500 three_readings_hook
       = (Some \<lparr>itemIndex = 0, avgEngagement = Finite False 6305039478318693 (- 54),
                avgFocus = Finite False 6305039478318693 (- 54), timeSpentMs = 1500\<rparr>,
          three_readings_hook)
   \<and> value_of (Finite False 6305039478318693 (- 54))
       = Some (3152519739159347 / 2 ^ 53 - 1 / 2 ^ 54)"
proof -
  have rs: "map engagement three_readings = replicate 3 (Finite False 3152519739159347 (- 53))"
    and fs: "map focus three_readings = replicate 3 (Finite False 3152519739159347 (- 53))"
    by (simp_all add: three_readings_def snapshot_ieee_def literals)
  have v1: "value_of (Finite False 3152519739159347 (- 53)) = Some (3152519739159347 / 2 ^ 53)"
    by (simp add: signed_def)
  have m: "mean (replicate 3 (3152519739159347 / 2 ^ 53)) = 3152519739159347 / 2 ^ 53"
    by (simp add: mean_def numeral_3_eq_3)
  have rec: "itemMetricsRef three_readings_hook 0
               = Some \<lparr>readings = three_readings, startTime = 1000\<rparr>"
    by (simp add: three_readings_hook_def)
  have ne: "three_readings \<noteq> []"
    by (simp add: three_readings_def)
  have code: "stopTrackingItem_ieee 0 2500 three_readings_hook
       = (Some \<lparr>itemIndex = 0, avgEngagement = Finite False 6305039478318693 (- 54),
                avgFocus = Finite False 6305039478318693 (- 54), timeSpentMs = 1500\<rparr>,
          three_readings_hook)"
    using stopTrackingItem_ieee_result [OF rec, of 2500] ne
    by (simp add: rs fs example_means)
  have v2: "value_of (Finite False 6305039478318693 (- 54))
       = Some (3152519739159347 / 2 ^ 53 - 1 / 2 ^ 54)"
    by (simp add: signed_def)
  from rs v1 m code v2 show ?thesis by blast
qed

text \<open>
  C7. For an item index with no tracking record, \<open>stopTrackingItem\<close> returns no result
  (\<open>null\<close>), raises nothing, and leaves the hook as it was.
\<close>

theorem stopTrackingItem_no_record:
  assumes "itemMetricsRef a idx = None"
  shows "stopTrackingItem idx now a = (None, a)"
  using assms by (simp add: stopTrackingItem_def)

theorem stopTrackingItem_no_record_witness:
  "itemMetricsRef example_hook 2 = None
   \<and> stopTrackingItem 2 4000 example_hook = (None, example_hook)"
proof -
  have h: "itemMetricsRef example_hook 2 = None"
    by (simp add: example_hook_def)
  from stopTrackingItem_no_record [OF h, of 4000] h show ?thesis by blast
qed

section \<open>Properties of the review session\<close>

lemmas session_defs = activeQueue_def activeItemIndex_def belowThreshold_def mergeResult_def
  mergeResults_def finishReview_def stopActive_def advanceItem_def goBack_def startReview_def
  startReReview_def resetReview_def renderEffects_def setLive_def sampleTick_def itemShown_def
  initialState_def startTrackingItem_def stopTrackingItem_def recordReading_def snapshot_def
  resultFor_def isMissed_def Let_def

lemma back_state_reached: "run 2 back_prefix initialState = Some back_state"
  by (simp add: back_prefix_def back_state_def session_defs)

lemma stopTrackingItem_snd: "snd (stopTrackingItem idx now a) = a"
  by (simp add: stopTrackingItem_def Let_def split: option.split)

lemma stopActive_snd: "snd (stopActive n now s) = attention s"
  by (simp add: stopActive_def stopTrackingItem_snd split: option.split)

lemma itemShown_in_range: "itemShown n s \<Longrightarrow> currentIndex s < length (activeQueue n s)"
  by (simp add: itemShown_def activeItemIndex_def Let_def split: if_splits)

lemma step_GoBack:
  assumes "phase s = Reviewing" and "itemShown n s"
  shows "step n (GoBack now) s =
           (if currentIndex s = 0 then None
            else Some (s\<lparr>currentIndex := currentIndex s - 1,
                         itemResultsRef := itemResults s,
                         attention := startTrackingItem
                            (activeQueue n s ! (currentIndex s - 1)) now (attention s)\<rparr>))"
proof (cases "currentIndex s = 0")
  case True
  then show ?thesis by simp
next
  case False
  have rng: "currentIndex s - 1 < length (activeQueue n s)"
    using itemShown_in_range [OF assms(2)] by simp
  have gb: "goBack n now s = s\<lparr>attention := attention s, currentIndex := currentIndex s - 1\<rparr>"
    using False stopActive_snd [of n now s]
    by (simp add: goBack_def split_beta)
  have queue: "activeQueue n (goBack n now s) = activeQueue n s"
    by (simp add: gb activeQueue_def)
  have active: "activeItemIndex n (goBack n now s)
                  = Some (activeQueue n s ! (currentIndex s - 1))"
    using rng by (simp add: activeItemIndex_def queue Let_def) (simp add: gb)
  show ?thesis
    using False assms
    by (simp add: renderEffects_def active) (simp add: gb)
qed

text \<open>
  C5 (amended). In the reviewing view the back transition exists only at a position above
  0. It calls \<open>stopTrackingItem\<close> for the current item and does not use the value
  returned, so \<open>itemResults\<close> and \<open>missedItems\<close> are unchanged; it decrements the
  position, a fresh tracking record is opened for the item now at the position, and the
  phase stays REVIEWING.
\<close>

theorem goBack_step:
  assumes "phase s = Reviewing" and "itemShown n s"
  shows "step n (GoBack now) s =
           (if currentIndex s = 0 then None
            else Some (s\<lparr>currentIndex := currentIndex s - 1,
                         itemResultsRef := itemResults s,
                         attention := startTrackingItem
                            (activeQueue n s ! (currentIndex s - 1)) now (attention s)\<rparr>))"
  using assms by (rule step_GoBack)

text \<open>
  C5 as stated fails: in the state reached by \<open>back_prefix\<close> the current item is item 1 and
  \<open>stopTrackingItem\<close> returns a result for it, but after the back transition the results
  hold no entry for item 1.
\<close>

theorem goBack_result_not_recorded:
  "map_option (fst \<circ> stopActive 2 2000) (run 2 back_prefix initialState)
     = Some (Some \<lparr>itemIndex = 1, avgEngagement = 0.7, avgFocus = 0.6, timeSpentMs = 500\<rparr>)
   \<and> map_option (resultFor 1 \<circ> itemResults) (run 2 (back_prefix @ [GoBack 2000]) initialState)
     = Some None"
  by (simp add: back_prefix_def session_defs)

text \<open>The back transition in \<open>back_state\<close>.\<close>

theorem goBack_step_witness:
  "phase back_state = Reviewing \<and> itemShown 2 back_state
   \<and> map_option currentIndex (step 2 (GoBack 2000) back_state) = Some 0
   \<and> map_option phase (step 2 (GoBack 2000) back_state) = Some Reviewing
   \<and> map_option itemResults (step 2 (GoBack 2000) back_state)
       = Some [\<lparr>itemIndex = 0, avgEngagement = 0.9, avgFocus = 0.8, timeSpentMs = 900\<rparr>]"
proof -
  have h1: "phase back_state = Reviewing"
    by (simp add: back_state_def)
  have h2: "itemShown 2 back_state"
    by (simp add: back_state_def itemShown_def activeItemIndex_def activeQueue_def)
  from goBack_step [OF h1 h2, of 2000] h1 h2 show ?thesis
    by (simp add: back_state_def)
qed

text \<open>
  C10. \<open>startTrackingItem\<close> sets the record of the index to an empty reading list and the
  start time \<open>now\<close>, whatever record the hook held for it. Hence going back re-opens the
  item now at the position with a fresh record: the readings of its earlier window are
  gone, and a stop at a later time with no sample in between returns the live snapshot
  and the time since the back transition.
\<close>

theorem startTrackingItem_restarts:
  assumes "phase s = Reviewing" and "itemShown n s" and "currentIndex s \<noteq> 0"
  shows "itemMetricsRef (startTrackingItem idx now a) idx = Some \<lparr>readings = [], startTime = now\<rparr>
         \<and> map_option (activeItemIndex n) (step n (GoBack now) s)
             = Some (Some (activeQueue n s ! (currentIndex s - 1)))
         \<and> map_option (trackingOf (activeQueue n s ! (currentIndex s - 1))) (step n (GoBack now) s)
             = Some (Some \<lparr>readings = [], startTime = now\<rparr>)
         \<and> map_option (fst \<circ> stopActive n later) (step n (GoBack now) s)
             = Some (Some \<lparr>itemIndex = activeQueue n s ! (currentIndex s - 1),
                            avgEngagement = engagement (liveMetrics (attention s)),
                            avgFocus = focus (liveMetrics (attention s)),
                            timeSpentMs = later - now\<rparr>)"
proof -
  have rng: "currentIndex s - 1 < length (activeQueue n s)"
    using itemShown_in_range [OF assms(2)] by simp
  have st: "step n (GoBack now) s =
          Some (s\<lparr>currentIndex := currentIndex s - 1,
                  itemResultsRef := itemResults s,
                  attention := startTrackingItem
                     (activeQueue n s ! (currentIndex s - 1)) now (attention s)\<rparr>)"
    using step_GoBack [OF assms(1,2), of now] assms(3) by simp
  have fresh: "itemMetricsRef (startTrackingItem idx now a) idx
                 = Some \<lparr>readings = [], startTime = now\<rparr>"
    by (simp add: startTrackingItem_def)
  have act: "map_option (activeItemIndex n) (step n (GoBack now) s)
             = Some (Some (activeQueue n s ! (currentIndex s - 1)))"
    unfolding st using rng by (simp add: activeItemIndex_def activeQueue_def Let_def)
  have trk: "map_option (trackingOf (activeQueue n s ! (currentIndex s - 1))) (step n (GoBack now) s)
             = Some (Some \<lparr>readings = [], startTime = now\<rparr>)"
    unfolding st by (simp add: trackingOf_def startTrackingItem_def)
  have stp: "map_option (fst \<circ> stopActive n later) (step n (GoBack now) s)
             = Some (Some \<lparr>itemIndex = activeQueue n s ! (currentIndex s - 1),
                            avgEngagement = engagement (liveMetrics (attention s)),
                            avgFocus = focus (liveMetrics (attention s)),
                            timeSpentMs = later - now\<rparr>)"
    unfolding st using rng
    by (simp add: stopActive_def activeItemIndex_def activeQueue_def Let_def
        stopTrackingItem_def startTrackingItem_def)
  from fresh act trk stp show ?thesis by blast
qed

text \<open>
  In \<open>back_state\<close> item 0 holds the two readings of its first window; after the back
  transition at 2000 its record is empty and starts at 2000.
\<close>

theorem startTrackingItem_restarts_witness:
  "phase back_state = Reviewing \<and> itemShown 2 back_state \<and> currentIndex back_state \<noteq> 0
   \<and> trackingOf 0 back_state
       = Some \<lparr>readings = [snapshot 0.9 0.8, snapshot 0.9 0.8], startTime = 100\<rparr>
   \<and> itemMetricsRef (startTrackingItem 0 2000 (attention back_state)) 0
       = Some \<lparr>readings = [], startTime = 2000\<rparr>
   \<and> map_option (trackingOf 0) (step 2 (GoBack 2000) back_state)
       = Some (Some \<lparr>readings = [], startTime = 2000\<rparr>)
   \<and> map_option (fst \<circ> stopActive 2 2600) (step 2 (GoBack 2000) back_state)
       = Some (Some \<lparr>itemIndex = 0, avgEngagement = 0.7, avgFocus = 0.6, timeSpentMs = 600\<rparr>)"
proof -
  have h1: "phase back_state = Reviewing"
    by (simp add: back_state_def)
  have h2: "itemShown 2 back_state"
    by (simp add: back_state_def itemShown_def activeItemIndex_def activeQueue_def)
  have h3: "currentIndex back_state \<noteq> 0"
    by (simp add: back_state_def)
  have old: "trackingOf 0 back_state
       = Some \<lparr>readings = [snapshot 0.9 0.8, snapshot 0.9 0.8], startTime = 100\<rparr>"
    by (simp add: back_state_def trackingOf_def)
  have q: "activeQueue 2 back_state ! (currentIndex back_state - 1) = 0"
    by (simp add: back_state_def activeQueue_def)
  have live: "liveMetrics (attention back_state) = snapshot 0.7 0.6"
    by (simp add: back_state_def)
  note inst = startTrackingItem_restarts [OF h1 h2 h3, of 0 2000 "attention back_state" 2600]
  have c1: "itemMetricsRef (startTrackingItem 0 2000 (attention back_state)) 0
       = Some \<lparr>readings = [], startTime = 2000\<rparr>"
    using inst by blast
  have c2: "map_option (trackingOf 0) (step 2 (GoBack 2000) back_state)
       = Some (Some \<lparr>readings = [], startTime = 2000\<rparr>)"
    using inst unfolding q by blast
  have "map_option (fst \<circ> stopActive 2 2600) (step 2 (GoBack 2000) back_state)
       = Some (Some \<lparr>itemIndex = 0, avgEngagement = engagement (snapshot 0.7 0.6),
                      avgFocus = focus (snapshot 0.7 0.6), timeSpentMs = 2600 - 2000\<rparr>)"
    using inst unfolding q live by blast
  then have c3: "map_option (fst \<circ> stopActive 2 2600) (step 2 (GoBack 2000) back_state)
       = Some (Some \<lparr>itemIndex = 0, avgEngagement = 0.7, avgFocus = 0.6, timeSpentMs = 600\<rparr>)"
    by (simp add: snapshot_def)
  from h1 h2 h3 old c1 c2 c3 show ?thesis by blast
qed

section \<open>Passes that only move forward\<close>

text \<open>
  On a first pass without back navigation the results are as the specification describes
  them: the pass can be completed by advancing through the queue, it ends with exactly one
  entry per item, in order, and an item is marked as missed exactly when the result found
  for it is below a threshold.
\<close>

lemma stopTrackingItem_open:
  assumes "itemMetricsRef a idx \<noteq> None"
  shows "\<exists>r. stopTrackingItem idx now a = (Some r, a) \<and> itemIndex r = idx"
  using assms by (auto simp add: stopTrackingItem_def Let_def)

lemma forwardPass_start:
  "step n (StartReview now) initialState = Some s \<Longrightarrow> forwardPass n s"
  by (auto simp add: forwardPass_def initialState_def startReview_def renderEffects_def
      activeItemIndex_def activeQueue_def trackingOf_def startTrackingItem_def Let_def)

lemma forwardPass_active:
  assumes "forwardPass n s" and "n \<noteq> 0"
  shows "activeItemIndex n s = Some (currentIndex s)"
  using assms by (simp add: forwardPass_def activeItemIndex_def activeQueue_def Let_def)

lemma forwardPass_advance:
  assumes inv: "forwardPass n s" and st: "step n (AdvanceItem now) s = Some s'"
  shows "(forwardPass n s' \<and> currentIndex s' = currentIndex s + 1 \<and> currentIndex s + 1 < n)
         \<or> (passDone n s' \<and> currentIndex s + 1 = n)"
proof -
  have shown: "itemShown n s" and s': "s' = renderEffects n now (advanceItem n now s)"
    using st by (auto split: if_splits)
  have n0: "n \<noteq> 0"
    using shown inv by (auto simp add: itemShown_def activeItemIndex_def activeQueue_def
        forwardPass_def Let_def split: if_splits)
  have act: "activeItemIndex n s = Some (currentIndex s)"
    using forwardPass_active [OF inv n0] .
  have q: "activeQueue n s = [0..<n]"
    using inv by (simp add: forwardPass_def activeQueue_def)
  have "itemMetricsRef (attention s) (currentIndex s) \<noteq> None"
    using inv n0 by (simp add: forwardPass_def trackingOf_def)
  from stopTrackingItem_open [OF this, of now]
  obtain r where r: "stopTrackingItem (currentIndex s) now (attention s) = (Some r, attention s)"
    and ri: "itemIndex r = currentIndex s" by blast
  have stop: "stopActive n now s = (Some r, attention s)"
    by (simp add: stopActive_def act r)
  show ?thesis
  proof (cases "currentIndex s + 1 < n")
    case True
    have adv: "advanceItem n now s
        = s\<lparr>itemResults := itemResults s @ [r], attention := attention s,
            currentIndex := currentIndex s + 1\<rparr>"
      using True by (simp add: advanceItem_def stop q)
    have "forwardPass n s'"
      using inv True ri unfolding s' adv
      by (simp add: forwardPass_def renderEffects_def activeItemIndex_def activeQueue_def
          trackingOf_def startTrackingItem_def Let_def)
    moreover have "currentIndex s' = currentIndex s + 1"
      unfolding s' adv by (simp add: renderEffects_def)
    ultimately show ?thesis using True by blast
  next
    case False
    have c: "currentIndex s + 1 = n"
      using False inv n0 by (simp add: forwardPass_def)
    have adv: "advanceItem n now s
        = finishReview (itemResults s @ [r])
            (s\<lparr>itemResults := itemResults s @ [r], attention := attention s\<rparr>)"
      using False inv by (simp add: advanceItem_def stop q forwardPass_def)
    have "passDone n s'"
      using inv ri c unfolding s' adv
      by (auto simp add: forwardPass_def passDone_def renderEffects_def finishReview_def)
    then show ?thesis using c by blast
  qed
qed

lemma forwardPass_advance_enabled:
  assumes "forwardPass n s" and "n \<noteq> 0"
  shows "step n (AdvanceItem now) s = Some (renderEffects n now (advanceItem n now s))"
  using assms forwardPass_active [OF assms]
  by (simp add: forwardPass_def itemShown_def)

lemma forwardPass_other:
  assumes inv: "forwardPass n s" and fw: "isForward e" and na: "\<forall>now. e \<noteq> AdvanceItem now"
    and st: "step n e s = Some s'"
  shows "forwardPass n s'"
proof (cases e)
  case SampleTick
  then show ?thesis
    using inv st
    by (auto simp add: forwardPass_def sampleTick_def activeItemIndex_def activeQueue_def
        recordReading_def trackingOf_def Let_def split: if_splits option.splits)
next
  case (DetectFrame result now)
  then show ?thesis
    using inv st
    by (auto simp add: forwardPass_def detectFrame_def setLive_def renderEffects_def
        activeItemIndex_def activeQueue_def trackingOf_def startTrackingItem_def Let_def
        split: if_splits sum.splits)
next
  case (DemoTick m now)
  then show ?thesis
    using inv st
    by (auto simp add: forwardPass_def setLive_def renderEffects_def
        activeItemIndex_def activeQueue_def trackingOf_def startTrackingItem_def Let_def
        split: if_splits)
qed (use fw na in auto)

lemma passDone_stuck:
  assumes "phase s = Results" and "isForward e"
  shows "step n e s = None"
  using assms by (cases e) auto

lemma run_forward:
  assumes "list_all isForward es" and "forwardPass n s \<or> passDone n s"
    and "run n es s = Some s'"
  shows "forwardPass n s' \<or> passDone n s'"
  using assms
proof (induction es arbitrary: s)
  case Nil
  then show ?case by simp
next
  case (Cons e es)
  from Cons.prems(3) obtain s1 where s1: "step n e s = Some s1" and rest: "run n es s1 = Some s'"
    by (auto split: option.splits)
  have fw: "isForward e" and fws: "list_all isForward es"
    using Cons.prems(1) by simp_all
  have notdone: "\<not> passDone n s"
    using passDone_stuck [OF _ fw, of s n] s1 by (auto simp add: passDone_def)
  then have inv: "forwardPass n s" using Cons.prems(2) by blast
  have "forwardPass n s1 \<or> passDone n s1"
  proof (cases "\<exists>now. e = AdvanceItem now")
    case True
    then show ?thesis using forwardPass_advance [OF inv] s1 by blast
  next
    case False
    then show ?thesis using forwardPass_other [OF inv fw _ s1] by blast
  qed
  from Cons.IH [OF fws this rest] show ?case .
qed

lemma forward_pass_results:
  assumes "list_all isForward es"
    and "run n (StartReview t0 # es) initialState = Some s"
    and "phase s = Results"
  shows "map itemIndex (itemResults s) = [0..<n]
         \<and> missedItems s = filter belowThreshold (itemResults s)"
proof -
  from assms(2) obtain s0 where s0: "step n (StartReview t0) initialState = Some s0"
    and rest: "run n es s0 = Some s"
    by (auto split: option.splits)
  have "forwardPass n s \<or> passDone n s"
    using run_forward [OF assms(1) _ rest] forwardPass_start [OF s0] by blast
  then show ?thesis
    using assms(3) by (auto simp add: forwardPass_def passDone_def)
qed

lemma run_advances:
  assumes "forwardPass n s" and "n \<noteq> 0" and "k = n - currentIndex s"
  shows "\<exists>s'. run n (replicate k (AdvanceItem now)) s = Some s' \<and> passDone n s'"
  using assms
proof (induction k arbitrary: s)
  case 0
  then show ?case by (simp add: forwardPass_def)
next
  case (Suc k)
  let ?s1 = "renderEffects n now (advanceItem n now s)"
  have st: "step n (AdvanceItem now) s = Some ?s1"
    using forwardPass_advance_enabled [OF Suc.prems(1,2)] .
  from forwardPass_advance [OF Suc.prems(1) st]
  show ?case
  proof
    assume a: "forwardPass n ?s1 \<and> currentIndex ?s1 = currentIndex s + 1 \<and> currentIndex s + 1 < n"
    then have "k = n - currentIndex ?s1" using Suc.prems(3) by simp
    from Suc.IH [OF _ Suc.prems(2) this] a
    obtain s' where "run n (replicate k (AdvanceItem now)) ?s1 = Some s'" and "passDone n s'"
      by blast
    then show ?thesis using st by auto
  next
    assume a: "passDone n ?s1 \<and> currentIndex s + 1 = n"
    then have "currentIndex s + 1 = n" by blast
    with Suc.prems(3) have "k = 0" by arith
    then show ?thesis using st a by auto
  qed
qed

lemma forward_pass_completes:
  assumes "n \<noteq> 0"
  shows "\<exists>s. run n (StartReview t0 # replicate n (AdvanceItem now)) initialState = Some s
             \<and> phase s = Results \<and> map itemIndex (itemResults s) = [0..<n]"
proof -
  let ?s0 = "renderEffects n t0 (startReview initialState)"
  have st: "step n (StartReview t0) initialState = Some ?s0"
    by (simp add: initialState_def)
  have inv: "forwardPass n ?s0"
    using forwardPass_start [OF st] .
  have "currentIndex ?s0 = 0"
    by (simp add: renderEffects_def startReview_def initialState_def)
  then have "n = n - currentIndex ?s0" by simp
  from run_advances [OF inv assms this, of now]
  obtain s where "run n (replicate n (AdvanceItem now)) ?s0 = Some s" and "passDone n s"
    by blast
  then show ?thesis using st by (auto simp add: passDone_def)
qed

lemma isMissed_filter:
  assumes "distinct (map itemIndex rs)"
  shows "isMissed i (filter P rs) \<longleftrightarrow> (\<exists>r. resultFor i rs = Some r \<and> P r)"
  using assms
proof (induction rs)
  case Nil
  then show ?case by (simp add: isMissed_def resultFor_def)
next
  case (Cons x rs)
  have absent: "\<not> isMissed i (filter P rs)" if "itemIndex x = i"
  proof
    assume "isMissed i (filter P rs)"
    then obtain m where "m \<in> set rs" and "itemIndex m = i"
      by (auto simp add: isMissed_def list_ex_iff)
    then have "itemIndex x \<in> itemIndex ` set rs"
      using that by (metis imageI)
    then show False using Cons.prems by simp
  qed
  from Cons show ?case
    using absent by (auto simp add: isMissed_def resultFor_def)
qed

lemma forward_pass_flagged:
  assumes "list_all isForward es"
    and "run n (StartReview t0 # es) initialState = Some s"
    and "phase s = Results"
  shows "isMissed i (missedItems s)
           \<longleftrightarrow> (\<exists>r. resultFor i (itemResults s) = Some r \<and> belowThreshold r)"
proof -
  from forward_pass_results [OF assms]
  have idx: "map itemIndex (itemResults s) = [0..<n]"
    and missed: "missedItems s = filter belowThreshold (itemResults s)"
    by blast+
  have "distinct (map itemIndex (itemResults s))"
    unfolding idx by simp
  from isMissed_filter [OF this] show ?thesis
    unfolding missed .
qed

text \<open>
  Whatever the kind of pass, every failing entry that \<open>itemResultsRef\<close> holds when the
  last item is advanced is in the missed list afterwards.
\<close>

lemma last_advance_keeps_failing_entries:
  assumes "\<not> currentIndex s + 1 < length (activeQueue n s)"
    and "r \<in> set (itemResultsRef s)" and "belowThreshold r"
  shows "r \<in> set (missedItems (advanceItem n now s))"
  using assms
  by (auto simp add: advanceItem_def finishReview_def split_beta Let_def split: option.splits)

section \<open>The results of a pass, on concrete sessions\<close>

text \<open>
  C1. One item is reviewed with averages (0.2, 0.2), flagged, and re-reviewed with averages
  (0.9, 0.9). When the sub-pass completes, the result shown for the item is the new one,
  which passes the threshold, and the item is still a member of the missed list: the final
  results handed to \<open>finishReview\<close> start with the entries of the first pass.
\<close>

theorem rereview_flag_kept:
  "map_option phase (run 1 rereview_trace initialState) = Some Results
   \<and> map_option (resultFor 0 \<circ> itemResults) (run 1 rereview_trace initialState)
       = Some (Some \<lparr>itemIndex = 0, avgEngagement = 0.9, avgFocus = 0.9, timeSpentMs = 900\<rparr>)
   \<and> \<not> belowThreshold \<lparr>itemIndex = 0, avgEngagement = 0.9, avgFocus = 0.9, timeSpentMs = 900\<rparr>
   \<and> map_option (isMissed 0 \<circ> missedItems) (run 1 rereview_trace initialState) = Some True"
  by (simp add: rereview_trace_def session_defs)

text \<open>
  C2. In the scenario of the specification the full pass leaves one entry per item and
  flags items 1 and 2. After the re-review of the two items the results hold five entries:
  items 1 and 2 have two entries each.
\<close>

theorem rereview_duplicates_entries:
  "map_option (map itemIndex \<circ> itemResults) (run 3 scenario_pass initialState) = Some [0, 1, 2]
   \<and> map_option (map itemIndex \<circ> missedItems) (run 3 scenario_pass initialState) = Some [1, 2]
   \<and> map_option (map itemIndex \<circ> itemResults)
        (run 3 (scenario_pass @ scenario_rereview) initialState) = Some [0, 1, 2, 1, 2]"
  by (simp add: scenario_pass_def scenario_rereview_def session_defs)

text \<open>
  C3. A full pass over two items with one back transition (advance, back, advance,
  advance) ends in RESULTS with three entries, two of them for item 0.
\<close>

theorem full_pass_with_back_extra_entry:
  "map_option phase (run 2 revisit_trace initialState) = Some Results
   \<and> map_option (map itemIndex \<circ> itemResults) (run 2 revisit_trace initialState) = Some [0, 0, 1]
   \<and> map_option (length \<circ> itemResults) (run 2 revisit_trace initialState) = Some 3"
  by (simp add: revisit_trace_def session_defs)

text \<open>
  C4. A full pass over two items in which item 0 is visited twice, first with averages
  (0.9, 0.9), then with (0.1, 0.1): when the pass completes item 0 is the only member of
  the missed list, while the result the view finds for item 0 is the first one, which is
  below neither threshold.
\<close>

theorem flagged_member_with_passing_result:
  "map_option phase (run 2 second_visit_trace initialState) = Some Results
   \<and> map_option (map itemIndex \<circ> missedItems) (run 2 second_visit_trace initialState) = Some [0]
   \<and> map_option (resultFor 0 \<circ> itemResults) (run 2 second_visit_trace initialState)
       = Some (Some \<lparr>itemIndex = 0, avgEngagement = 0.9, avgFocus = 0.9, timeSpentMs = 900\<rparr>)
   \<and> \<not> belowThreshold \<lparr>itemIndex = 0, avgEngagement = 0.9, avgFocus = 0.9, timeSpentMs = 900\<rparr>"
  by (simp add: second_visit_trace_def session_defs)

end
